theory Spec2Isabelle
  imports Complex_Main
begin

section \<open>JavaScript numbers\<close>

text \<open>
  Every number of \<^verbatim>\<open>plot.js\<close> is an IEEE 754 binary64 value. A finite value is
  kept as the rational it denotes: \<open>Fin 0\<close> is \<open>+0\<close>, \<open>NegZero\<close> is \<open>-0\<close>.
  There is one \<open>NaN\<close>, as in the language, which cannot tell NaN payloads apart.
\<close>

datatype number = NaN | PosInf | NegInf | NegZero | Fin rat

text \<open>Number of binary digits of a natural number: \<open>bitlen 0 = 0\<close>, \<open>bitlen 5 = 3\<close>.\<close>

fun bitlen :: "nat \<Rightarrow> nat" where
  "bitlen n = (if n = 0 then 0 else Suc (bitlen (n div 2)))"

declare bitlen.simps [simp del]

text \<open>\<open>pow2 k\<close> is \<open>2\<close> to the power \<open>k\<close>, for an exponent of either sign.\<close>

definition pow2 :: "int \<Rightarrow> rat" where
  "pow2 k = (if 0 \<le> k then 2 ^ nat k else 1 / 2 ^ nat (- k))"

text \<open>
  The binary exponent of a positive rational: the \<open>e\<close> with
  \<open>pow2 e \<le> a < pow2 (e + 1)\<close>.
\<close>

definition ilog2 :: "rat \<Rightarrow> int" where
  "ilog2 a =
     (if 1 \<le> a then int (bitlen (nat \<lfloor>a\<rfloor>)) - 1
      else - int (bitlen (nat (\<lceil>1 / a\<rceil> - 1))))"

text \<open>Rounding a non-negative rational to the nearest integer, a tie going to the even one.\<close>

definition roundHalfEven :: "rat \<Rightarrow> int" where
  "roundHalfEven x =
     (let f = \<lfloor>x\<rfloor>; r = x - of_int f
      in if r < 1 / 2 then f
         else if 1 / 2 < r then f + 1
         else if even f then f else f + 1)"

text \<open>
  Rounding a rational to binary64, to nearest with ties to even: 53 significant bits, the
  exponent of the last bit at least \<open>-1074\<close> (below that the values are subnormal), and a
  rounded magnitude of \<open>2 ^ 1024\<close> or more is an infinity. A result that rounds to zero
  keeps the sign of the exact value.
\<close>

definition roundDouble :: "rat \<Rightarrow> number" where
  "roundDouble q =
     (if q = 0 then Fin 0
      else
        let a = \<bar>q\<bar>;
            e = max (ilog2 a) (- 1022);
            ulp = pow2 (e - 52);
            r = of_int (roundHalfEven (a / ulp)) * ulp
        in if pow2 1024 \<le> r then (if q < 0 then NegInf else PosInf)
           else if r = 0 then (if q < 0 then NegZero else Fin 0)
           else Fin (if q < 0 then - r else r))"

text \<open>The sign bit of a number other than NaN.\<close>

fun signBit :: "number \<Rightarrow> bool" where
  "signBit NaN = False"
| "signBit PosInf = False"
| "signBit NegInf = True"
| "signBit NegZero = True"
| "signBit (Fin q) = (q < 0)"

fun isInf :: "number \<Rightarrow> bool" where
  "isInf PosInf = True"
| "isInf NegInf = True"
| "isInf _ = False"

fun isZero :: "number \<Rightarrow> bool" where
  "isZero NegZero = True"
| "isZero (Fin q) = (q = 0)"
| "isZero _ = False"

text \<open>The rational a finite number denotes (both zeros denote \<open>0\<close>).\<close>

fun valueOf :: "number \<Rightarrow> rat" where
  "valueOf (Fin q) = q"
| "valueOf _ = 0"

definition signedInf :: "bool \<Rightarrow> number" where
  "signedInf s = (if s then NegInf else PosInf)"

definition signedZero :: "bool \<Rightarrow> number" where
  "signedZero s = (if s then NegZero else Fin 0)"

text \<open>Unary minus flips the sign, of a zero too.\<close>

fun negate :: "number \<Rightarrow> number" where
  "negate NaN = NaN"
| "negate PosInf = NegInf"
| "negate NegInf = PosInf"
| "negate NegZero = Fin 0"
| "negate (Fin q) = (if q = 0 then NegZero else Fin (- q))"

text \<open>
  \<^verbatim>\<open>x + y\<close> on two numbers (ECMAScript \<^verbatim>\<open>Number::add\<close>): NaN is contagious, opposite
  infinities give NaN, the sum of two zeros is \<open>-0\<close> only when both are, and a sum
  of finite values that is exactly zero is \<open>+0\<close>.
\<close>

fun numAdd :: "number \<Rightarrow> number \<Rightarrow> number" where
  "numAdd NaN y = NaN"
| "numAdd x NaN = NaN"
| "numAdd PosInf NegInf = NaN"
| "numAdd NegInf PosInf = NaN"
| "numAdd PosInf y = PosInf"
| "numAdd NegInf y = NegInf"
| "numAdd x PosInf = PosInf"
| "numAdd x NegInf = NegInf"
| "numAdd NegZero NegZero = NegZero"
| "numAdd NegZero (Fin b) = Fin b"
| "numAdd (Fin a) NegZero = Fin a"
| "numAdd (Fin a) (Fin b) = roundDouble (a + b)"

text \<open>\<^verbatim>\<open>x - y\<close> on two numbers is \<^verbatim>\<open>x + (-y)\<close> (ECMAScript \<^verbatim>\<open>Number::subtract\<close>).\<close>

definition numSubtract :: "number \<Rightarrow> number \<Rightarrow> number" where
  "numSubtract x y = numAdd x (negate y)"

text \<open>
  \<^verbatim>\<open>x / y\<close> on two numbers (ECMAScript \<^verbatim>\<open>Number::divide\<close>): \<open>0 / 0\<close> and
  \<open>\<infinity> / \<infinity>\<close> are NaN, a non-zero value over a zero is an infinity; the sign of the
  result is the exclusive or of the signs.
\<close>

definition numDivide :: "number \<Rightarrow> number \<Rightarrow> number" where
  "numDivide x y =
     (if x = NaN \<or> y = NaN then NaN
      else if isInf x then (if isInf y then NaN else signedInf (signBit x \<noteq> signBit y))
      else if isInf y then signedZero (signBit x \<noteq> signBit y)
      else if isZero y then (if isZero x then NaN else signedInf (signBit x \<noteq> signBit y))
      else if isZero x then signedZero (signBit x \<noteq> signBit y)
      else roundDouble (valueOf x / valueOf y))"

text \<open>
  \<^verbatim>\<open>x < y\<close> on two numbers: false when either is NaN, the two zeros are equal.
\<close>

fun numLess :: "number \<Rightarrow> number \<Rightarrow> bool" where
  "numLess NaN y = False"
| "numLess x NaN = False"
| "numLess PosInf y = False"
| "numLess x NegInf = False"
| "numLess x PosInf = True"
| "numLess NegInf y = True"
| "numLess x y = (valueOf x < valueOf y)"

text \<open>\<^verbatim>\<open>x > y\<close> is \<^verbatim>\<open>y < x\<close>.\<close>

definition numGreater :: "number \<Rightarrow> number \<Rightarrow> bool" where
  "numGreater x y = numLess y x"

text \<open>
  \<^verbatim>\<open>x === y\<close> on two numbers: NaN equals nothing, itself included, and \<open>+0\<close> equals
  \<open>-0\<close>.
\<close>

fun numStrictEquals :: "number \<Rightarrow> number \<Rightarrow> bool" where
  "numStrictEquals NaN y = False"
| "numStrictEquals x NaN = False"
| "numStrictEquals PosInf y = (y = PosInf)"
| "numStrictEquals NegInf y = (y = NegInf)"
| "numStrictEquals x PosInf = False"
| "numStrictEquals x NegInf = False"
| "numStrictEquals x y = (valueOf x = valueOf y)"

text \<open>The global \<^verbatim>\<open>isNaN\<close>, applied to a number.\<close>

definition isNaN :: "number \<Rightarrow> bool" where
  "isNaN d = (d = NaN)"

section \<open>JavaScript values\<close>

text \<open>
  The values a cell of a parsed row can hold. \<^verbatim>\<open>Papa.parse\<close> with
  \<^verbatim>\<open>dynamicTyping: true\<close> stores \<^verbatim>\<open>null\<close> for an empty field, a boolean, a number, a
  \<^verbatim>\<open>Date\<close> object (kept as its time value) or the text itself. It never stores
  \<^verbatim>\<open>undefined\<close>: that is what reading an absent column gives, and it is the \<open>None\<close>
  of a lookup.
\<close>

datatype jsval = JNull | JBool bool | JNum number | JStr string | JDate number

text \<open>A parsed row: an object keyed by the header's column names.\<close>

type_synonym rawRow = "string \<rightharpoonup> jsval"

text \<open>Truthiness (ECMAScript \<^verbatim>\<open>ToBoolean\<close>); \<open>None\<close> is \<^verbatim>\<open>undefined\<close>.\<close>

fun toBoolean :: "jsval option \<Rightarrow> bool" where
  "toBoolean None = False"
| "toBoolean (Some JNull) = False"
| "toBoolean (Some (JBool b)) = b"
| "toBoolean (Some (JNum n)) = (\<not> isZero n \<and> n \<noteq> NaN)"
| "toBoolean (Some (JStr s)) = (s \<noteq> [])"
| "toBoolean (Some (JDate t)) = True"

text \<open>
  Conversion to a number (ECMAScript \<^verbatim>\<open>ToNumber\<close>). How the language reads a string as
  a number is not part of \<^verbatim>\<open>plot.js\<close>; it is the parameter \<open>stringToNumber\<close>.
\<close>

fun toNumber :: "(string \<Rightarrow> number) \<Rightarrow> jsval \<Rightarrow> number" where
  "toNumber stringToNumber JNull = Fin 0"
| "toNumber stringToNumber (JBool b) = (if b then Fin 1 else Fin 0)"
| "toNumber stringToNumber (JNum n) = n"
| "toNumber stringToNumber (JStr s) = stringToNumber s"
| "toNumber stringToNumber (JDate t) = t"

text \<open>\<^verbatim>\<open>a - b\<close> on two values: both are converted to numbers, then subtracted.\<close>

definition jsMinus :: "(string \<Rightarrow> number) \<Rightarrow> jsval \<Rightarrow> jsval \<Rightarrow> number" where
  "jsMinus stringToNumber a b =
     numSubtract (toNumber stringToNumber a) (toNumber stringToNumber b)"

text \<open>\<^verbatim>\<open>v || 0\<close>: the value itself when it is truthy, the number \<open>0\<close> otherwise.\<close>

definition orZero :: "jsval option \<Rightarrow> jsval" where
  "orZero v = (case v of
       None \<Rightarrow> JNum (Fin 0)
     | Some x \<Rightarrow> if toBoolean (Some x) then x else JNum (Fin 0))"

section \<open>The transformer\<close>

text \<open>
  The object built for each row. \<open>difference\<close> is the result of a subtraction, so a
  number; the other fields hold whatever value the row had.
\<close>

record comparisonRow =
  rowIndex :: jsval
  xgboost :: jsval
  neuralNet :: jsval
  difference :: number
  originalDifference :: jsval

text \<open>
  \<^verbatim>\<open>const nnMinusXgb = (row['Neural Net (AUROC)'] || 0) - (row['Xgboost (AUROC)'] || 0);\<close>
\<close>

definition nnMinusXgb :: "(string \<Rightarrow> number) \<Rightarrow> rawRow \<Rightarrow> number" where
  "nnMinusXgb stringToNumber row =
     jsMinus stringToNumber (orZero (row ''Neural Net (AUROC)'')) (orZero (row ''Xgboost (AUROC)''))"

text \<open>
  The callback of \<^verbatim>\<open>parsed.data.map((row, index) => ...)\<close>. An array index is below
  \<open>2 ^ 32\<close>, so it is a number without rounding.
\<close>

definition processRow :: "(string \<Rightarrow> number) \<Rightarrow> rawRow \<Rightarrow> nat \<Rightarrow> comparisonRow" where
  "processRow stringToNumber row index =
     \<lparr> rowIndex = (case row ''Row Index'' of
                       Some v \<Rightarrow> v
                     | None \<Rightarrow> JNum (Fin (of_nat index))),
       xgboost = orZero (row ''Xgboost (AUROC)''),
       neuralNet = orZero (row ''Neural Net (AUROC)''),
       difference = nnMinusXgb stringToNumber row,
       originalDifference = orZero (row ''Difference'') \<rparr>"

text \<open>\<^verbatim>\<open>const processedData = parsed.data.map((row, index) => { ... });\<close>\<close>

definition processedData :: "(string \<Rightarrow> number) \<Rightarrow> rawRow list \<Rightarrow> comparisonRow list" where
  "processedData stringToNumber rows =
     map (\<lambda>(index, row). processRow stringToNumber row index) (enumerate 0 rows)"

section \<open>The aggregator\<close>

text \<open>
  \<^verbatim>\<open>const validDifferences = processedData.map(d => d.difference).filter(d => !isNaN(d));\<close>
\<close>

definition validDifferences :: "comparisonRow list \<Rightarrow> number list" where
  "validDifferences pd = filter (\<lambda>d. \<not> isNaN d) (map difference pd)"

text \<open>
  \<^verbatim>\<open>const avgDiff = validDifferences.reduce((sum, val) => sum + val, 0) / validDifferences.length;\<close>
\<close>

definition avgDiff :: "comparisonRow list \<Rightarrow> number" where
  "avgDiff pd =
     numDivide (foldl (\<lambda>sum val. numAdd sum val) (Fin 0) (validDifferences pd))
               (Fin (of_nat (length (validDifferences pd))))"

text \<open>
  The counts of the summary tiles:
  \<^verbatim>\<open>data.length\<close>, \<^verbatim>\<open>data.filter(d => d.difference > 0).length\<close>,
  \<^verbatim>\<open>data.filter(d => d.difference < 0).length\<close> and
  \<^verbatim>\<open>data.filter(d => d.difference === 0).length\<close>.
\<close>

definition totalComparisons :: "comparisonRow list \<Rightarrow> nat" where
  "totalComparisons ds = length ds"

definition deepLearningWins :: "comparisonRow list \<Rightarrow> nat" where
  "deepLearningWins ds = length (filter (\<lambda>d. numGreater (difference d) (Fin 0)) ds)"

definition xgboostWins :: "comparisonRow list \<Rightarrow> nat" where
  "xgboostWins ds = length (filter (\<lambda>d. numLess (difference d) (Fin 0)) ds)"

definition tiedPerformance :: "comparisonRow list \<Rightarrow> nat" where
  "tiedPerformance ds = length (filter (\<lambda>d. numStrictEquals (difference d) (Fin 0)) ds)"

section \<open>The component and its loader\<close>

text \<open>An exception of the language, with its message.\<close>

datatype jsError = JsError string

text \<open>An entry of \<^verbatim>\<open>parsed.errors\<close>: what went wrong and on which row.\<close>

datatype parseError = ParseError string nat

text \<open>The object \<^verbatim>\<open>Papa.parse\<close> returns, as far as the component reads it.\<close>

record parseResult =
  parsedData :: "rawRow list"
  parsedErrors :: "parseError list"

text \<open>The two calls of \<^verbatim>\<open>console.error\<close>.\<close>

datatype logEntry = CsvParsingErrors "parseError list" | ErrorLoadingData jsError

text \<open>
  The three \<^verbatim>\<open>useState\<close> cells of \<^verbatim>\<open>AUROCDifferencePlot\<close>, and the console the
  component writes to.
\<close>

record component =
  data :: "comparisonRow list"
  avgDifference :: number
  loading :: bool
  console :: "logEntry list"

text \<open>
  \<^verbatim>\<open>useState([])\<close>, \<^verbatim>\<open>useState(0)\<close>, \<^verbatim>\<open>useState(true)\<close>.
\<close>

definition initialState :: component where
  "initialState = \<lparr> data = [], avgDifference = Fin 0, loading = True, console = [] \<rparr>"

text \<open>
  The body of the \<^verbatim>\<open>try\<close> block of \<^verbatim>\<open>loadData\<close>. The file read and the CSV
  parser are not part of \<^verbatim>\<open>plot.js\<close>: \<open>readFile\<close> is the outcome of the one call
  \<^verbatim>\<open>await window.fs.readFile('diff.csv', ...)\<close>, the text or the exception it
  throws, and \<open>parse\<close> is \<^verbatim>\<open>Papa.parse\<close> with the options of the source, which may
  throw as well. The block ends in \<open>Inl\<close> when a step throws; the state setters run only
  when none does.
\<close>

definition tryBlock ::
  "(string \<Rightarrow> number) \<Rightarrow> (string \<Rightarrow> jsError + parseResult) \<Rightarrow> jsError + string
     \<Rightarrow> component \<Rightarrow> jsError + component" where
  "tryBlock stringToNumber parse readFile st =
     (case readFile of
        Inl error \<Rightarrow> Inl error
      | Inr fileContent \<Rightarrow>
          (case parse fileContent of
             Inl error \<Rightarrow> Inl error
           | Inr parsed \<Rightarrow>
               let st1 = (if 0 < length (parsedErrors parsed)
                          then st\<lparr>console := console st @ [CsvParsingErrors (parsedErrors parsed)]\<rparr>
                          else st);
                   pd = processedData stringToNumber (parsedData parsed)
               in Inr (st1\<lparr>data := pd, avgDifference := avgDiff pd, loading := False\<rparr>)))"

text \<open>
  \<^verbatim>\<open>loadData\<close>: the \<^verbatim>\<open>try\<close> block, and the \<^verbatim>\<open>catch\<close> clause that logs the error
  and clears the loading flag. The result is \<open>Inl\<close> when an exception leaves the function
  (the promise it returns is rejected).
\<close>

definition loadData ::
  "(string \<Rightarrow> number) \<Rightarrow> (string \<Rightarrow> jsError + parseResult) \<Rightarrow> jsError + string
     \<Rightarrow> component \<Rightarrow> jsError + component" where
  "loadData stringToNumber parse readFile st =
     (case tryBlock stringToNumber parse readFile st of
        Inr st' \<Rightarrow> Inr st'
      | Inl error \<Rightarrow> Inr (st\<lparr>console := console st @ [ErrorLoadingData error], loading := False\<rparr>))"

section \<open>The displayed average\<close>

definition digitChar :: "nat \<Rightarrow> char" where
  "digitChar d = ''0123456789'' ! d"

text \<open>The decimal digits of a natural number, without leading zeros.\<close>

fun decimalDigits :: "nat \<Rightarrow> string" where
  "decimalDigits n =
     (if n < 10 then [digitChar n] else decimalDigits (n div 10) @ [digitChar (n mod 10)])"

declare decimalDigits.simps [simp del]

text \<open>
  \<^verbatim>\<open>Number.prototype.toFixed\<close> on a non-negative finite value \<open>x\<close>, with \<open>f\<close> digits after
  the point: the integer \<open>n\<close> nearest to \<open>x * 10 ^ f\<close> (the larger one on a tie), its
  digits padded with zeros to \<open>f + 1\<close> places, and the point before the last \<open>f\<close>. From
  \<open>10 ^ 21\<close> on the method returns what \<^verbatim>\<open>String(x)\<close> does, which is the parameter
  \<open>numberToString\<close>.
\<close>

definition toFixedMagnitude :: "(rat \<Rightarrow> string) \<Rightarrow> nat \<Rightarrow> rat \<Rightarrow> string" where
  "toFixedMagnitude numberToString f x =
     (if 10 ^ 21 \<le> x then numberToString x
      else
        let n = nat \<lfloor>x * 10 ^ f + 1 / 2\<rfloor>;
            m = decimalDigits n
        in if f = 0 then m
           else
             let m' = (if length m \<le> f then replicate (f + 1 - length m) (CHR ''0'') @ m else m);
                 k = length m'
             in take (k - f) m' @ ''.'' @ drop (k - f) m')"

text \<open>
  \<^verbatim>\<open>x.toFixed(f)\<close>, for the \<open>f\<close> of the source (\<open>4\<close> and \<open>3\<close>, within the range the
  method accepts). \<open>-0\<close> is not below zero, so it prints without a sign.
\<close>

fun toFixed :: "(rat \<Rightarrow> string) \<Rightarrow> nat \<Rightarrow> number \<Rightarrow> string" where
  "toFixed numberToString f NaN = ''NaN''"
| "toFixed numberToString f PosInf = ''Infinity''"
| "toFixed numberToString f NegInf = ''-Infinity''"
| "toFixed numberToString f NegZero = toFixedMagnitude numberToString f 0"
| "toFixed numberToString f (Fin q) =
     (if q < 0 then ''-'' @ toFixedMagnitude numberToString f (- q)
      else toFixedMagnitude numberToString f q)"

text \<open>
  The text of the header's badge: nothing while the component shows
  \<^verbatim>\<open>Loading data...\<close>, then \<^verbatim>\<open>{avgDifference.toFixed(4)}\<close>.
\<close>

definition displayedAverage :: "(rat \<Rightarrow> string) \<Rightarrow> component \<Rightarrow> string option" where
  "displayedAverage numberToString st =
     (if loading st then None else Some (toFixed numberToString 4 (avgDifference st)))"

section \<open>What the specification says, and sample inputs\<close>

text \<open>
  \<^verbatim>\<open>Number.isFinite\<close>: the numbers that are neither NaN nor an infinity.
\<close>

fun isFiniteNumber :: "number \<Rightarrow> bool" where
  "isFiniteNumber NegZero = True"
| "isFiniteNumber (Fin q) = True"
| "isFiniteNumber _ = False"

text \<open>
  Following the specification's words, not the source: the average difference is the
  floating-point sum of the differences that are not NaN, taken in row order from zero,
  divided by the number of such rows.
\<close>

fun specSum :: "number \<Rightarrow> comparisonRow list \<Rightarrow> number" where
  "specSum acc [] = acc"
| "specSum acc (r # rs) =
     (if difference r = NaN then specSum acc rs else specSum (numAdd acc (difference r)) rs)"

fun specCount :: "comparisonRow list \<Rightarrow> nat" where
  "specCount [] = 0"
| "specCount (r # rs) = (if difference r = NaN then specCount rs else Suc (specCount rs))"

definition specMean :: "comparisonRow list \<Rightarrow> number" where
  "specMean ds = numDivide (specSum (Fin 0) ds) (Fin (of_nat (specCount ds)))"

text \<open>
  A stand-in for the language's reading of a string as a number, for concrete inputs whose
  strings are not numerals: the empty string is \<open>0\<close>, such a string is NaN.
\<close>

definition sampleStringToNumber :: "string \<Rightarrow> number" where
  "sampleStringToNumber s = (if s = [] then Fin 0 else NaN)"

text \<open>A row of a dataset with a given difference.\<close>

definition sampleRow :: "number \<Rightarrow> comparisonRow" where
  "sampleRow d =
     \<lparr> rowIndex = JNull, xgboost = JNum (Fin 0), neuralNet = JNum (Fin 0),
       difference = d, originalDifference = JNum (Fin 0) \<rparr>"

text \<open>
  The two rows of the specification's scenario. The parser turns the text \<^verbatim>\<open>0.90\<close> into
  the double nearest to \<open>9 / 10\<close>, and so on.
\<close>

definition scenarioRows :: "rawRow list" where
  "scenarioRows =
     [[''Row Index'' \<mapsto> JNum (Fin 0),
       ''Xgboost (AUROC)'' \<mapsto> JNum (roundDouble (9 / 10)),
       ''Neural Net (AUROC)'' \<mapsto> JNum (roundDouble (17 / 20))],
      [''Row Index'' \<mapsto> JNum (Fin 1),
       ''Xgboost (AUROC)'' \<mapsto> JNum (roundDouble (4 / 5)),
       ''Neural Net (AUROC)'' \<mapsto> JNum (roundDouble (19 / 20))]]"

section \<open>The rounding gives a nearest double\<close>

text \<open>
  Checks of the number model itself. \<open>ilog2\<close> is the binary exponent, \<open>roundHalfEven\<close> is
  within one half of its argument, and a finite result of \<open>roundDouble\<close> is a multiple
  of the unit in the last place with a significand of at most 53 bits, no further than
  half that unit from the exact value.
\<close>

lemma pow2_powi: "pow2 k = 2 powi k"
  by (simp add: pow2_def power_int_def field_simps)

lemma bitlen_bounds: "0 < n \<Longrightarrow> 2 ^ (bitlen n - 1) \<le> n \<and> n < 2 ^ bitlen n"
proof (induction n rule: bitlen.induct)
  case (1 n)
  show ?case
  proof (cases "n div 2 = 0")
    case True
    with 1(2) have "n = 1" by (simp add: div_eq_0_iff) 
    then show ?thesis by (simp add: bitlen.simps)
  next
    case False
    then have pos: "0 < n div 2" by simp
    with 1 have ih: "2 ^ (bitlen (n div 2) - 1) \<le> n div 2 \<and> n div 2 < 2 ^ bitlen (n div 2)" by simp
    have bl: "bitlen n = Suc (bitlen (n div 2))" using 1(2) by (simp add: bitlen.simps)
    have "0 < bitlen (n div 2)" using pos by (simp add: bitlen.simps [of "n div 2"])
    then obtain k where k: "bitlen (n div 2) = Suc k" by (cases "bitlen (n div 2)") auto
    from ih k have "2 ^ k \<le> n div 2" "n div 2 < 2 ^ Suc k" by simp_all
    then have "2 ^ Suc k \<le> n" "n < 2 ^ Suc (Suc k)" by simp_all
    then show ?thesis by (simp add: bl k)
  qed
qed

lemma rat_power2_le: "2 ^ k \<le> n \<Longrightarrow> (2::rat) ^ k \<le> of_nat n"
proof -
  assume "2 ^ k \<le> n"
  then have "(of_nat (2 ^ k) :: rat) \<le> of_nat n" by (rule of_nat_mono)
  then show ?thesis by simp
qed

lemma rat_less_power2: "n < 2 ^ k \<Longrightarrow> of_nat n + 1 \<le> (2::rat) ^ k"
proof -
  assume "n < 2 ^ k"
  then have "Suc n \<le> 2 ^ k" by simp
  then have "(of_nat (Suc n) :: rat) \<le> of_nat (2 ^ k)" by (rule of_nat_mono)
  then show ?thesis by (simp add: add.commute)
qed

lemma bitlen_pos: "0 < n \<Longrightarrow> 0 < bitlen n"
  by (simp add: bitlen.simps [of n])

lemma ilog2_bounds_ge1:
  assumes "1 \<le> a"
  shows "pow2 (ilog2 a) \<le> a \<and> a < pow2 (ilog2 a + 1)"
proof -
  define n where "n = nat \<lfloor>a\<rfloor>"
  have fl: "1 \<le> \<lfloor>a\<rfloor>" using assms by linarith
  then have n1: "0 < n" by (simp add: n_def)
  have "of_int \<lfloor>a\<rfloor> \<le> a" "a < of_int \<lfloor>a\<rfloor> + 1" by linarith+
  moreover have "(of_nat n :: rat) = of_int \<lfloor>a\<rfloor>" using fl by (simp add: n_def)
  ultimately have na: "of_nat n \<le> a" "a < of_nat n + 1" by simp_all
  from bitlen_bounds [OF n1] have b: "2 ^ (bitlen n - 1) \<le> n" "n < 2 ^ bitlen n" by simp_all
  have bpos: "0 < bitlen n" using n1 by (rule bitlen_pos)
  have e: "ilog2 a = int (bitlen n - 1)" using assms bpos by (simp add: ilog2_def n_def)
  have e1: "ilog2 a + 1 = int (bitlen n)" using e bpos by simp
  from rat_power2_le [OF b(1)] na(1) have "(2::rat) ^ (bitlen n - 1) \<le> a" by (rule order_trans)
  then have lo: "pow2 (ilog2 a) \<le> a" unfolding e by (simp add: pow2_def)
  from na(2) rat_less_power2 [OF b(2)] have "a < (2::rat) ^ bitlen n" by (rule less_le_trans)
  then have hi: "a < pow2 (ilog2 a + 1)" unfolding e1 by (simp add: pow2_def)
  from lo hi show ?thesis ..
qed

lemma ilog2_bounds_lt1:
  assumes "0 < a" and "a < 1"
  shows "pow2 (ilog2 a) \<le> a \<and> a < pow2 (ilog2 a + 1)"
proof -
  define m where "m = nat (\<lceil>1 / a\<rceil> - 1)"
  have inv: "1 < 1 / a" using assms by simp
  then have c2: "2 \<le> \<lceil>1 / a\<rceil>" by linarith
  then have m1: "0 < m" by (simp add: m_def)
  have "of_int \<lceil>1 / a\<rceil> - 1 < 1 / a" "1 / a \<le> of_int \<lceil>1 / a\<rceil>" by linarith+
  moreover have "(of_nat m :: rat) = of_int \<lceil>1 / a\<rceil> - 1"
  proof -
    have "0 \<le> \<lceil>1 / a\<rceil> - 1" using c2 by linarith
    then have "int m = \<lceil>1 / a\<rceil> - 1" unfolding m_def by (rule nat_0_le)
    then have "(of_int (int m) :: rat) = of_int (\<lceil>1 / a\<rceil> - 1)" by (rule arg_cong)
    then show ?thesis by simp
  qed
  ultimately have ma: "of_nat m < 1 / a" "1 / a \<le> of_nat m + 1" by simp_all
  from bitlen_bounds [OF m1] have b: "2 ^ (bitlen m - 1) \<le> m" "m < 2 ^ bitlen m" by simp_all
  have bpos: "0 < bitlen m" using m1 by (rule bitlen_pos)
  have e: "ilog2 a = - int (bitlen m)" using assms by (simp add: ilog2_def m_def)
  from ma(2) rat_less_power2 [OF b(2)] have "1 / a \<le> 2 ^ bitlen m" by (rule order_trans)
  then have "1 / 2 ^ bitlen m \<le> a" using assms(1) by (simp add: field_simps)
  then have lo: "pow2 (ilog2 a) \<le> a" unfolding e using bpos by (simp add: pow2_def)
  from rat_power2_le [OF b(1)] ma(1) have "2 ^ (bitlen m - 1) < 1 / a" by (rule le_less_trans)
  then have lt: "a < 1 / 2 ^ (bitlen m - 1)" using assms(1) by (simp add: field_simps)
  have "pow2 (- int (bitlen m) + 1) = 1 / 2 ^ (bitlen m - 1)"
  proof (cases "bitlen m = 1")
    case True
    then show ?thesis by (simp add: pow2_def)
  next
    case False
    with bpos have "1 < bitlen m" by simp
    then have "\<not> 0 \<le> - int (bitlen m) + 1" "nat (- (- int (bitlen m) + 1)) = bitlen m - 1"
      by simp_all
    then show ?thesis by (simp only: pow2_def if_False)
  qed
  with lt have hi: "a < pow2 (ilog2 a + 1)" unfolding e by simp
  from lo hi show ?thesis ..
qed

lemma ilog2_bounds: "0 < a \<Longrightarrow> pow2 (ilog2 a) \<le> a \<and> a < pow2 (ilog2 a + 1)"
  using ilog2_bounds_ge1 [of a] ilog2_bounds_lt1 [of a] by (cases "1 \<le> a") simp_all

lemma roundHalfEven_error: "\<bar>of_int (roundHalfEven x) - x\<bar> \<le> 1 / 2"
proof -
  define r where "r = x - of_int \<lfloor>x\<rfloor>"
  have r: "0 \<le> r" "r < 1" unfolding r_def by linarith+
  consider "r < 1 / 2" | "1 / 2 < r" | "r = 1 / 2" by linarith
  then show ?thesis
  proof cases
    case 1
    then have h: "roundHalfEven x = \<lfloor>x\<rfloor>" by (simp add: roundHalfEven_def Let_def r_def)
    have "\<bar>of_int \<lfloor>x\<rfloor> - x\<bar> \<le> 1 / 2" using 1 r unfolding r_def by linarith
    then show ?thesis by (simp only: h)
  next
    case 2
    then have h: "roundHalfEven x = \<lfloor>x\<rfloor> + 1" by (simp add: roundHalfEven_def Let_def r_def)
    have "\<bar>of_int (\<lfloor>x\<rfloor> + 1) - x\<bar> \<le> 1 / 2" using 2 r unfolding r_def by simp
    then show ?thesis by (simp only: h)
  next
    case 3
    then have h: "roundHalfEven x = \<lfloor>x\<rfloor> \<or> roundHalfEven x = \<lfloor>x\<rfloor> + 1"
      by (simp add: roundHalfEven_def Let_def r_def)
    have "\<bar>of_int \<lfloor>x\<rfloor> - x\<bar> \<le> 1 / 2" "\<bar>of_int (\<lfloor>x\<rfloor> + 1) - x\<bar> \<le> 1 / 2"
      using 3 unfolding r_def by simp_all
    with h show ?thesis by presburger
  qed
qed


lemma pow2_pos: "0 < pow2 k"
  by (simp add: pow2_def)

lemma pow2_add: "pow2 (i + j) = pow2 i * pow2 j"
  by (simp add: pow2_powi power_int_add)

lemma pow2_mono: "i \<le> j \<Longrightarrow> pow2 i \<le> pow2 j"
  by (simp add: pow2_powi power_int_increasing)

lemma roundHalfEven_nonneg: "0 \<le> x \<Longrightarrow> 0 \<le> roundHalfEven x"
proof -
  assume "0 \<le> x"
  then have "0 \<le> \<lfloor>x\<rfloor>" by simp
  then show ?thesis by (simp add: roundHalfEven_def Let_def)
qed

lemma roundDouble_Fin_cases:
  assumes "q \<noteq> 0" and "roundDouble q = Fin r"
  shows "\<bar>r\<bar> = of_int (roundHalfEven (\<bar>q\<bar> / pow2 (max (ilog2 \<bar>q\<bar>) (- 1022) - 52))) *
           pow2 (max (ilog2 \<bar>q\<bar>) (- 1022) - 52) \<and> (r < 0 \<longrightarrow> q < 0) \<and> (0 < r \<longrightarrow> 0 < q)"
proof -
  define u where "u = pow2 (max (ilog2 \<bar>q\<bar>) (- 1022) - 52)"
  define n where "n = roundHalfEven (\<bar>q\<bar> / u)"
  have u: "0 < u" unfolding u_def by (rule pow2_pos)
  have "0 \<le> \<bar>q\<bar> / u" using u by simp
  then have n: "0 \<le> n" unfolding n_def by (rule roundHalfEven_nonneg)
  then have nu: "0 \<le> of_int n * u" using u by simp
  from assms show ?thesis
    unfolding roundDouble_def Let_def u_def [symmetric] n_def [symmetric]
    using nu by (auto split: if_splits simp: abs_if)
qed

lemma roundDouble_nearest:
  assumes "q \<noteq> 0" and "roundDouble q = Fin r"
  shows "\<exists>m. \<bar>r\<bar> = of_int m * pow2 (max (ilog2 \<bar>q\<bar>) (- 1022) - 52) \<and> 0 \<le> m \<and> m \<le> 2 ^ 53 \<and>
           \<bar>r - q\<bar> \<le> pow2 (max (ilog2 \<bar>q\<bar>) (- 1022) - 53)"
proof -
  define e where "e = max (ilog2 \<bar>q\<bar>) (- 1022)"
  define u where "u = pow2 (e - 52)"
  define n where "n = roundHalfEven (\<bar>q\<bar> / u)"
  have u: "0 < u" unfolding u_def by (rule pow2_pos)
  have a: "0 < \<bar>q\<bar>" using assms(1) by simp
  have "0 \<le> \<bar>q\<bar> / u" using u by simp
  then have n0: "0 \<le> n" unfolding n_def by (rule roundHalfEven_nonneg)
  from roundDouble_Fin_cases [OF assms]
  have r: "\<bar>r\<bar> = of_int n * u" and sg: "r < 0 \<longrightarrow> q < 0" "0 < r \<longrightarrow> 0 < q"
    unfolding n_def u_def e_def by simp_all
  have err: "\<bar>of_int n - \<bar>q\<bar> / u\<bar> \<le> 1 / 2" unfolding n_def by (rule roundHalfEven_error)
  have "(of_int n - \<bar>q\<bar> / u) * u = of_int n * u - \<bar>q\<bar>"
    using u by (simp add: left_diff_distrib)
  then have "\<bar>of_int n * u - \<bar>q\<bar>\<bar> = \<bar>(of_int n - \<bar>q\<bar> / u) * u\<bar>" by (rule arg_cong [symmetric])
  also have "\<dots> = \<bar>of_int n - \<bar>q\<bar> / u\<bar> * \<bar>u\<bar>" by (rule abs_mult)
  also have "\<dots> = \<bar>of_int n - \<bar>q\<bar> / u\<bar> * u" using u by simp
  also have "\<dots> \<le> 1 / 2 * u" using err u by (rule mult_right_mono [OF _ less_imp_le])
  finally have d: "\<bar>of_int n * u - \<bar>q\<bar>\<bar> \<le> u / 2" by simp
  have half: "u / 2 = pow2 (e - 53)"
  proof -
    have "pow2 (e - 52) = pow2 ((e - 53) + 1)" by (rule arg_cong) simp
    also have "\<dots> = pow2 (e - 53) * pow2 1" by (rule pow2_add)
    finally show ?thesis by (simp add: u_def pow2_def)
  qed
  have "\<bar>r - q\<bar> = \<bar>\<bar>r\<bar> - \<bar>q\<bar>\<bar>" using sg by (auto simp: abs_if)
  with d r half have near: "\<bar>r - q\<bar> \<le> pow2 (e - 53)" by simp
  have "\<bar>q\<bar> < pow2 (ilog2 \<bar>q\<bar> + 1)" using ilog2_bounds [OF a] by simp
  also have "\<dots> \<le> pow2 (e + 1)" by (rule pow2_mono) (simp add: e_def)
  also have "pow2 (e + 1) = pow2 ((e - 52) + 53)" by (rule arg_cong) simp
  also have "\<dots> = u * pow2 53" unfolding u_def by (rule pow2_add)
  finally have "\<bar>q\<bar> / u < pow2 53" using u by (simp add: field_simps)
  with err have "of_int n < pow2 53 + 1 / 2" by linarith
  then have "(of_int n :: rat) < of_int (2 ^ 53) + 1 / 2" by (simp add: pow2_def)
  then have "n \<le> 2 ^ 53" by linarith
  with r n0 near show ?thesis unfolding u_def e_def by blast
qed

section \<open>Evaluating the arithmetic\<close>

lemma floor_rat_numeral_div:
  "\<lfloor>(numeral a / numeral b :: rat)\<rfloor> = numeral a div numeral b"
  using floor_divide_of_int_eq [of "numeral a" "numeral b", where ?'a = rat] by simp

lemma ceiling_rat_numeral_div:
  "\<lceil>(numeral a / numeral b :: rat)\<rceil> = - (- numeral a div numeral b)"
  using floor_divide_of_int_eq [of "- numeral a" "numeral b", where ?'a = rat]
  by (simp add: ceiling_def)

lemmas evalRound = ilog2_def pow2_def roundHalfEven_def bitlen.simps
  floor_rat_numeral_div ceiling_rat_numeral_div

lemma double_090: "roundDouble (9 / 10) = Fin (8106479329266893 / 9007199254740992)"
  unfolding roundDouble_def Let_def by (simp add: evalRound)

lemma double_085: "roundDouble (17 / 20) = Fin (7656119366529843 / 9007199254740992)"
  unfolding roundDouble_def Let_def by (simp add: evalRound)

lemma double_080: "roundDouble (4 / 5) = Fin (3602879701896397 / 4503599627370496)"
  unfolding roundDouble_def Let_def by (simp add: evalRound)

lemma double_095: "roundDouble (19 / 20) = Fin (4278419646001971 / 4503599627370496)"
  unfolding roundDouble_def Let_def by (simp add: evalRound)

lemma double_minus_005:
  "roundDouble (- (1 / 20)) = Fin (- (3602879701896397 / 72057594037927936))"
  unfolding roundDouble_def Let_def by (simp add: evalRound)

lemma double_015: "roundDouble (3 / 20) = Fin (5404319552844595 / 36028797018963968)"
  unfolding roundDouble_def Let_def by (simp add: evalRound)

lemma double_005: "roundDouble (1 / 20) = Fin (3602879701896397 / 72057594037927936)"
  unfolding roundDouble_def Let_def by (simp add: evalRound)

lemma round_row0:
  "roundDouble (- (225179981368525 / 4503599627370496)) =
     Fin (- (225179981368525 / 4503599627370496))"
  unfolding roundDouble_def Let_def by (simp add: evalRound)

lemma round_row1:
  "roundDouble (337769972052787 / 2251799813685248) =
     Fin (337769972052787 / 2251799813685248)"
  unfolding roundDouble_def Let_def by (simp add: evalRound)

lemma round_sum:
  "roundDouble (450359962737049 / 4503599627370496) =
     Fin (450359962737049 / 4503599627370496)"
  unfolding roundDouble_def Let_def by (simp add: evalRound)

lemma round_mean:
  "roundDouble (450359962737049 / 9007199254740992) =
     Fin (450359962737049 / 9007199254740992)"
  unfolding roundDouble_def Let_def by (simp add: evalRound)

lemma round_1: "roundDouble 1 = Fin 1"
  unfolding roundDouble_def Let_def by (simp add: evalRound)

lemma round_3: "roundDouble 3 = Fin 3"
  unfolding roundDouble_def Let_def by (simp add: evalRound)

lemma round_3_halves: "roundDouble (3 / 2) = Fin (3 / 2)"
  unfolding roundDouble_def Let_def by (simp add: evalRound)

lemma round_minus_1: "roundDouble (- 1) = Fin (- 1)"
  unfolding roundDouble_def Let_def by (simp add: evalRound)

text \<open>
  The rounding at work on familiar cases: \<^verbatim>\<open>0.1 + 0.2\<close> is \<open>0.30000000000000004\<close>
  and not the double \<^verbatim>\<open>0.3\<close>; \<^verbatim>\<open>1 / 3\<close>; a tie goes to the even neighbour; the
  special values.
\<close>

lemma double_01: "roundDouble (1 / 10) = Fin (3602879701896397 / 36028797018963968)"
  unfolding roundDouble_def Let_def by (simp add: evalRound)

lemma double_02: "roundDouble (1 / 5) = Fin (3602879701896397 / 18014398509481984)"
  unfolding roundDouble_def Let_def by (simp add: evalRound)

lemma round_03:
  "roundDouble (10808639105689191 / 36028797018963968) =
     Fin (1351079888211149 / 4503599627370496)"
  unfolding roundDouble_def Let_def by (simp add: evalRound)

lemma sum_01_02:
  "numAdd (roundDouble (1 / 10)) (roundDouble (1 / 5)) =
     Fin (1351079888211149 / 4503599627370496) \<and>
   numAdd (roundDouble (1 / 10)) (roundDouble (1 / 5)) \<noteq> roundDouble (3 / 10)"
proof -
  have "roundDouble (3 / 10) = Fin (5404319552844595 / 18014398509481984)"
    unfolding roundDouble_def Let_def by (simp add: evalRound)
  then show ?thesis by (simp add: double_01 double_02 round_03)
qed

lemma one_third: "numDivide (Fin 1) (Fin 3) = Fin (6004799503160661 / 18014398509481984)"
proof -
  have "roundDouble (1 / 3) = Fin (6004799503160661 / 18014398509481984)"
    unfolding roundDouble_def Let_def by (simp add: evalRound)
  then show ?thesis by (simp add: numDivide_def)
qed

lemma tie_to_even:
  "roundDouble 9007199254740993 = Fin 9007199254740992 \<and>
   roundDouble 9007199254740995 = Fin 9007199254740996"
  unfolding roundDouble_def Let_def by (simp add: evalRound)

lemma special_values:
  "numDivide (Fin 0) (Fin 0) = NaN \<and> numDivide (Fin 1) NegZero = NegInf \<and>
   numAdd PosInf NegInf = NaN \<and> numAdd NegZero (Fin 0) = Fin 0"
  by (simp add: numDivide_def signedInf_def)

lemmas evalRows = processedData_def enumerate_eq_zip upt_rec processRow_def nnMinusXgb_def
  orZero_def jsMinus_def numSubtract_def sampleStringToNumber_def

lemma scenario_data:
  "processedData f scenarioRows =
     [\<lparr> rowIndex = JNum (Fin 0),
         xgboost = JNum (Fin (8106479329266893 / 9007199254740992)),
         neuralNet = JNum (Fin (7656119366529843 / 9007199254740992)),
         difference = Fin (- (225179981368525 / 4503599627370496)),
         originalDifference = JNum (Fin 0) \<rparr>,
      \<lparr> rowIndex = JNum (Fin 1),
         xgboost = JNum (Fin (3602879701896397 / 4503599627370496)),
         neuralNet = JNum (Fin (4278419646001971 / 4503599627370496)),
         difference = Fin (337769972052787 / 2251799813685248),
         originalDifference = JNum (Fin 0) \<rparr>]"
  by (simp add: evalRows scenarioRows_def double_090 double_085 double_080 double_095
        round_row0 round_row1)

lemma scenario_avg:
  "avgDiff (processedData f scenarioRows) = Fin (450359962737049 / 9007199254740992)"
  by (simp add: scenario_data avgDiff_def validDifferences_def isNaN_def numDivide_def
        round_row0 round_sum round_mean)

section \<open>Properties of the transformer\<close>

lemma processedData_length: "length (processedData f rows) = length rows"
  by (simp add: processedData_def)

lemma processedData_nth:
  "i < length rows \<Longrightarrow> processedData f rows ! i = processRow f (rows ! i) i"
  by (simp add: processedData_def nth_enumerate_eq)

lemma processedData_difference:
  "map difference (processedData f rows) = map (nnMinusXgb f) rows"
  by (rule nth_equalityI) (simp_all add: processedData_length processedData_nth processRow_def)

lemma nnMinusXgb_cong:
  "\<forall>k. k \<noteq> ''Difference'' \<longrightarrow> r k = r' k \<Longrightarrow> nnMinusXgb f r = nnMinusXgb f r'"
  by (simp add: nnMinusXgb_def)

text \<open>
  Claim C1. For every row the transformer produces, \<open>difference\<close> is the value of
  \<^verbatim>\<open>neuralNet - xgboost\<close> on the two defaulted fields of that same row, whatever the
  cells held (absent, empty, text, numbers). It is not read from the file's own
  \<^verbatim>\<open>Difference\<close> column: erasing that column from every row leaves every derived difference
  as it was. Equality is that of values, under which NaN is NaN; the comparison
  \<^verbatim>\<open>===\<close> of the language is false on a NaN difference.
\<close>

theorem difference_recomputed:
  "(\<forall>r \<in> set (processedData f rows). difference r = jsMinus f (neuralNet r) (xgboost r)) \<and>
   map difference (processedData f (map (\<lambda>row. row(''Difference'' := None)) rows)) =
     map difference (processedData f rows)"
proof
  show "\<forall>r \<in> set (processedData f rows). difference r = jsMinus f (neuralNet r) (xgboost r)"
  proof
    fix r
    assume "r \<in> set (processedData f rows)"
    then obtain i where "i < length rows" and "r = processRow f (rows ! i) i"
      by (metis in_set_conv_nth processedData_length processedData_nth)
    then show "difference r = jsMinus f (neuralNet r) (xgboost r)"
      by (simp add: processRow_def nnMinusXgb_def)
  qed
next
  have "map (nnMinusXgb f) (map (\<lambda>row. row(''Difference'' := None)) rows) =
          map (nnMinusXgb f) rows"
    by (simp add: nnMinusXgb_def)
  then show "map difference (processedData f (map (\<lambda>row. row(''Difference'' := None)) rows)) =
     map difference (processedData f rows)"
    by (simp only: processedData_difference)
qed

text \<open>
  At a row whose XGBoost cell is the text \<^verbatim>\<open>n/a\<close> (the difference is NaN) and a row with
  no columns at all (the difference is \<open>0\<close>).
\<close>

theorem difference_recomputed_witness:
  "processedData sampleStringToNumber [[''Xgboost (AUROC)'' \<mapsto> JStr ''n/a''], Map.empty] ! 0
     \<in> set (processedData sampleStringToNumber
              [[''Xgboost (AUROC)'' \<mapsto> JStr ''n/a''], Map.empty]) \<and>
   difference (processedData sampleStringToNumber
       [[''Xgboost (AUROC)'' \<mapsto> JStr ''n/a''], Map.empty] ! 0) =
     jsMinus sampleStringToNumber
       (neuralNet (processedData sampleStringToNumber
          [[''Xgboost (AUROC)'' \<mapsto> JStr ''n/a''], Map.empty] ! 0))
       (xgboost (processedData sampleStringToNumber
          [[''Xgboost (AUROC)'' \<mapsto> JStr ''n/a''], Map.empty] ! 0)) \<and>
   difference (processedData sampleStringToNumber
       [[''Xgboost (AUROC)'' \<mapsto> JStr ''n/a''], Map.empty] ! 0) = NaN \<and>
   difference (processedData sampleStringToNumber
       [[''Xgboost (AUROC)'' \<mapsto> JStr ''n/a''], Map.empty] ! 1) = Fin 0"
  using difference_recomputed
    [of sampleStringToNumber "[[''Xgboost (AUROC)'' \<mapsto> JStr ''n/a''], Map.empty]"]
  by (simp add: evalRows)

text \<open>
  Claim C4. For every sequence of parsed rows, the transformer's output has the length of
  its input, and its \<open>i\<close>-th row is the one built from the \<open>i\<close>-th input row and the
  position \<open>i\<close>: no row is dropped, added or moved, and none depends on another row.
\<close>

theorem transformer_length_and_order:
  "length (processedData f rows) = length rows \<and>
   (\<forall>i<length rows. processedData f rows ! i = processRow f (rows ! i) i)"
  by (simp add: processedData_length processedData_nth)

theorem transformer_length_and_order_witness:
  "length (processedData sampleStringToNumber scenarioRows) = 2 \<and>
   (1::nat) < length scenarioRows \<and>
   processedData sampleStringToNumber scenarioRows ! 1 =
     processRow sampleStringToNumber (scenarioRows ! 1) 1"
  using transformer_length_and_order [of sampleStringToNumber scenarioRows]
  by (simp add: scenarioRows_def)

text \<open>
  Claim C6. For every parsed row, the derived \<open>rowIndex\<close> is the value of the row's
  \<^verbatim>\<open>Row Index\<close> column when the row has that column, and the row's zero-based position in
  the parsed sequence when it has not.
\<close>

theorem rowIndex_column_or_position:
  "\<forall>i<length rows. rowIndex (processedData f rows ! i) =
     (case (rows ! i) ''Row Index'' of Some v \<Rightarrow> v | None \<Rightarrow> JNum (Fin (of_nat i)))"
  by (simp add: processedData_nth processRow_def)

theorem rowIndex_column_or_position_witness:
  "(0::nat) < length [[''Row Index'' \<mapsto> JNum (Fin 7)], Map.empty] \<and>
   (1::nat) < length [[''Row Index'' \<mapsto> JNum (Fin 7)], Map.empty] \<and>
   rowIndex (processedData sampleStringToNumber
       [[''Row Index'' \<mapsto> JNum (Fin 7)], Map.empty] ! 0) = JNum (Fin 7) \<and>
   rowIndex (processedData sampleStringToNumber
       [[''Row Index'' \<mapsto> JNum (Fin 7)], Map.empty] ! 1) = JNum (Fin 1)"
  using rowIndex_column_or_position
    [of "[[''Row Index'' \<mapsto> JNum (Fin 7)], Map.empty]" sampleStringToNumber]
  by simp

section \<open>Properties of the counts\<close>

lemma sign_trichotomy:
  "d \<noteq> NaN \<Longrightarrow>
     (if numGreater d (Fin 0) then 1 else 0) + (if numLess d (Fin 0) then 1 else 0) +
     (if numStrictEquals d (Fin 0) then 1 else 0) = (1::nat)"
  by (cases d) (auto simp: numGreater_def)

lemma counts_partition:
  "\<forall>d \<in> set ds. difference d \<noteq> NaN \<Longrightarrow>
     deepLearningWins ds + xgboostWins ds + tiedPerformance ds = totalComparisons ds"
proof (induction ds)
  case Nil
  then show ?case
    by (simp add: deepLearningWins_def xgboostWins_def tiedPerformance_def totalComparisons_def)
next
  case (Cons a ds)
  then have "difference a \<noteq> NaN" by simp
  from sign_trichotomy [OF this] Cons show ?case
    by (simp add: deepLearningWins_def xgboostWins_def tiedPerformance_def totalComparisons_def
          split: if_splits)
qed

text \<open>
  Claim C5. For every dataset in which every row's difference is a finite number, the
  number of rows with a difference above zero, plus the number with a difference below
  zero, plus the number with a difference equal to zero, is the number of rows.
\<close>

theorem counts_partition_finite:
  "\<forall>d \<in> set ds. isFiniteNumber (difference d) \<Longrightarrow>
     deepLearningWins ds + xgboostWins ds + tiedPerformance ds = totalComparisons ds"
  by (rule counts_partition) auto

text \<open>At the differences \<open>1/2\<close>, \<open>-1/4\<close>, \<open>+0\<close> and \<open>-0\<close>: one win, one loss, two ties.\<close>

theorem counts_partition_finite_witness:
  "isFiniteNumber (difference (sampleRow (Fin (1 / 2)))) \<and>
   isFiniteNumber (difference (sampleRow (Fin (- (1 / 4))))) \<and>
   isFiniteNumber (difference (sampleRow (Fin 0))) \<and>
   isFiniteNumber (difference (sampleRow NegZero)) \<and>
   deepLearningWins [sampleRow (Fin (1 / 2)), sampleRow (Fin (- (1 / 4))), sampleRow (Fin 0),
     sampleRow NegZero] = 1 \<and>
   xgboostWins [sampleRow (Fin (1 / 2)), sampleRow (Fin (- (1 / 4))), sampleRow (Fin 0),
     sampleRow NegZero] = 1 \<and>
   tiedPerformance [sampleRow (Fin (1 / 2)), sampleRow (Fin (- (1 / 4))), sampleRow (Fin 0),
     sampleRow NegZero] = 2 \<and>
   totalComparisons [sampleRow (Fin (1 / 2)), sampleRow (Fin (- (1 / 4))), sampleRow (Fin 0),
     sampleRow NegZero] = 4"
proof -
  have h: "\<forall>d \<in> set [sampleRow (Fin (1 / 2)), sampleRow (Fin (- (1 / 4))), sampleRow (Fin 0),
                sampleRow NegZero]. isFiniteNumber (difference d)"
    by (simp add: sampleRow_def)
  show ?thesis
    using h counts_partition_finite [OF h]
    by (simp add: sampleRow_def deepLearningWins_def xgboostWins_def tiedPerformance_def
          totalComparisons_def numGreater_def)
qed

section \<open>The file's own Difference column\<close>

text \<open>
  Claim C7. The \<^verbatim>\<open>Difference\<close> column of the file never reaches the derived differences or
  their average: two sequences of parsed rows of the same length that agree, row by row, on
  every column but \<^verbatim>\<open>Difference\<close> give the same differences and the same average. (The
  column is copied to \<open>originalDifference\<close>, which nothing reads.)
\<close>

theorem difference_column_is_dead:
  assumes "length rs = length rs'"
    and "\<forall>i<length rs. \<forall>k. k \<noteq> ''Difference'' \<longrightarrow> (rs ! i) k = (rs' ! i) k"
  shows "map difference (processedData f rs) = map difference (processedData f rs') \<and>
         avgDiff (processedData f rs) = avgDiff (processedData f rs')"
proof -
  have "map (nnMinusXgb f) rs = map (nnMinusXgb f) rs'"
    using assms by (intro nth_equalityI) (simp_all add: nnMinusXgb_cong)
  then have "map difference (processedData f rs) = map difference (processedData f rs')"
    by (simp add: processedData_difference)
  then show ?thesis
    by (simp add: avgDiff_def validDifferences_def)
qed

text \<open>Two one-row files that differ in the \<^verbatim>\<open>Difference\<close> cell only: \<open>5\<close> and \<^verbatim>\<open>x\<close>.\<close>

theorem difference_column_is_dead_witness:
  "map difference (processedData sampleStringToNumber
       [[''Xgboost (AUROC)'' \<mapsto> JNum (Fin 1), ''Difference'' \<mapsto> JNum (Fin 5)]]) = [Fin (- 1)] \<and>
   map difference (processedData sampleStringToNumber
       [[''Xgboost (AUROC)'' \<mapsto> JNum (Fin 1), ''Difference'' \<mapsto> JStr ''x'']]) = [Fin (- 1)] \<and>
   avgDiff (processedData sampleStringToNumber
       [[''Xgboost (AUROC)'' \<mapsto> JNum (Fin 1), ''Difference'' \<mapsto> JNum (Fin 5)]]) =
   avgDiff (processedData sampleStringToNumber
       [[''Xgboost (AUROC)'' \<mapsto> JNum (Fin 1), ''Difference'' \<mapsto> JStr ''x'']])"
proof -
  have h1: "length [[''Xgboost (AUROC)'' \<mapsto> JNum (Fin 1), ''Difference'' \<mapsto> JNum (Fin 5)]] =
            length [[''Xgboost (AUROC)'' \<mapsto> JNum (Fin 1), ''Difference'' \<mapsto> JStr ''x'']]"
    by simp
  have h2: "\<forall>i<length [[''Xgboost (AUROC)'' \<mapsto> JNum (Fin 1), ''Difference'' \<mapsto> JNum (Fin 5)]].
              \<forall>k. k \<noteq> ''Difference'' \<longrightarrow>
                ([[''Xgboost (AUROC)'' \<mapsto> JNum (Fin 1), ''Difference'' \<mapsto> JNum (Fin 5)]] ! i) k =
                ([[''Xgboost (AUROC)'' \<mapsto> JNum (Fin 1), ''Difference'' \<mapsto> JStr ''x'']] ! i) k"
    by simp
  show ?thesis
    using difference_column_is_dead [OF h1 h2, of sampleStringToNumber]
    by (simp add: evalRows round_minus_1)
qed

section \<open>Properties of the average\<close>

lemma foldl_valid_specSum:
  "foldl (\<lambda>sum val. numAdd sum val) acc (validDifferences ds) = specSum acc ds"
  by (induction ds arbitrary: acc) (simp_all add: validDifferences_def isNaN_def)

lemma length_valid_specCount: "length (validDifferences ds) = specCount ds"
  by (induction ds) (simp_all add: validDifferences_def isNaN_def)

lemma validDifferences_all_NaN:
  "\<forall>r \<in> set ds. difference r = NaN \<Longrightarrow> validDifferences ds = []"
  by (induction ds) (simp_all add: validDifferences_def isNaN_def)

lemma avgDiff_no_valid: "validDifferences ds = [] \<Longrightarrow> avgDiff ds = NaN"
  by (simp add: avgDiff_def numDivide_def)

lemma avgDiff_all_NaN: "\<forall>r \<in> set ds. difference r = NaN \<Longrightarrow> avgDiff ds = NaN"
  by (simp add: validDifferences_all_NaN avgDiff_no_valid)

text \<open>
  Claim C2. The average difference is the arithmetic mean, a floating-point sum divided by
  a count, of the differences of exactly the rows whose difference is not NaN. When the
  dataset is empty, or every row's difference is NaN, the computation does not fail: its
  result is NaN.
\<close>

theorem average_is_mean_of_valid:
  "avgDiff ds = specMean ds \<and>
   ((ds = [] \<or> (\<forall>r \<in> set ds. difference r = NaN)) \<longrightarrow> avgDiff ds = NaN)"
proof (intro conjI impI)
  show "avgDiff ds = specMean ds"
    by (simp add: avgDiff_def specMean_def foldl_valid_specSum length_valid_specCount)
next
  assume "ds = [] \<or> (\<forall>r \<in> set ds. difference r = NaN)"
  then have "\<forall>r \<in> set ds. difference r = NaN" by auto
  then show "avgDiff ds = NaN" by (rule avgDiff_all_NaN)
qed

text \<open>
  At the empty dataset, at two rows that are both NaN, and at the differences \<open>1\<close>, NaN,
  \<open>2\<close>, whose mean over the two valid rows is \<open>3/2\<close>.
\<close>

theorem average_is_mean_of_valid_witness:
  "avgDiff [] = NaN \<and>
   difference (sampleRow NaN) = NaN \<and>
   avgDiff [sampleRow NaN, sampleRow NaN] = NaN \<and>
   avgDiff [sampleRow (Fin 1), sampleRow NaN, sampleRow (Fin 2)] =
     specMean [sampleRow (Fin 1), sampleRow NaN, sampleRow (Fin 2)] \<and>
   specMean [sampleRow (Fin 1), sampleRow NaN, sampleRow (Fin 2)] = Fin (3 / 2)"
  using average_is_mean_of_valid [of "[]"]
    average_is_mean_of_valid [of "[sampleRow NaN, sampleRow NaN]"]
    average_is_mean_of_valid [of "[sampleRow (Fin 1), sampleRow NaN, sampleRow (Fin 2)]"]
  by (simp add: sampleRow_def specMean_def numDivide_def round_1 round_3 round_3_halves)

section \<open>Properties of the loader\<close>

lemma tryBlock_fails:
  "readFile = Inl e \<or> (\<exists>content. readFile = Inr content \<and> parse content = Inl e) \<Longrightarrow>
     tryBlock f parse readFile st = Inl e"
  by (auto simp: tryBlock_def)

lemma loadData_failure:
  "readFile = Inl e \<or> (\<exists>content. readFile = Inr content \<and> parse content = Inl e) \<Longrightarrow>
     loadData f parse readFile st =
       Inr (st\<lparr>console := console st @ [ErrorLoadingData e], loading := False\<rparr>)"
  by (simp add: loadData_def tryBlock_fails)

lemma loadData_success:
  "readFile = Inr content \<Longrightarrow> parse content = Inr parsed \<Longrightarrow>
     \<exists>st'. loadData f parse readFile st = Inr st' \<and>
       data st' = processedData f (parsedData parsed) \<and>
       avgDifference st' = avgDiff (processedData f (parsedData parsed)) \<and>
       loading st' = False"
  by (simp add: loadData_def tryBlock_def Let_def)

lemma loadData_returns: "\<exists>st'. loadData f parse readFile st = Inr st'"
  by (simp add: loadData_def split: sum.split)

text \<open>
  Claim C3. \<^verbatim>\<open>loadData\<close> never ends in an exception. When the file read fails, or the
  parser throws, the error is logged, the loading flag is cleared and the stored rows are
  left as they were: started from the initial state, the component ends up loaded, with an
  empty dataset and that one log entry. The read is attempted once.
\<close>

theorem load_failure_is_caught:
  "(\<exists>st'. loadData f parse readFile st = Inr st') \<and>
   (readFile = Inl e \<or> (\<exists>content. readFile = Inr content \<and> parse content = Inl e) \<longrightarrow>
      loadData f parse readFile st =
        Inr (st\<lparr>console := console st @ [ErrorLoadingData e], loading := False\<rparr>) \<and>
      (\<exists>st'. loadData f parse readFile initialState = Inr st' \<and>
         console st' = [ErrorLoadingData e] \<and> loading st' = False \<and> data st' = []))"
  using loadData_failure [of readFile e parse f initialState]
    loadData_failure [of readFile e parse f st]
  by (auto simp: loadData_returns initialState_def)

text \<open>At a missing file, and at a file on which the parser throws.\<close>

theorem load_failure_is_caught_witness:
  "(\<exists>st'. loadData sampleStringToNumber (\<lambda>content. Inl (JsError ''parse''))
            (Inl (JsError ''ENOENT'')) initialState = Inr st' \<and>
      console st' = [ErrorLoadingData (JsError ''ENOENT'')] \<and>
      loading st' = False \<and> data st' = []) \<and>
   (\<exists>st'. loadData sampleStringToNumber (\<lambda>content. Inl (JsError ''parse''))
            (Inr ''a,b'') initialState = Inr st' \<and>
      console st' = [ErrorLoadingData (JsError ''parse'')] \<and>
      loading st' = False \<and> data st' = [])"
  using load_failure_is_caught
      [of sampleStringToNumber "\<lambda>content. Inl (JsError ''parse'')" "Inl (JsError ''ENOENT'')"
          initialState "JsError ''ENOENT''"]
    load_failure_is_caught
      [of sampleStringToNumber "\<lambda>content. Inl (JsError ''parse'')" "Inr ''a,b''"
          initialState "JsError ''parse''"]
  by (auto simp: initialState_def)

text \<open>
  The loader does not read what an earlier run stored: the outcome of the \<^verbatim>\<open>try\<close>
  block on a given text is the same from any two prior states, and a second run of
  \<^verbatim>\<open>loadData\<close>, from the state the first run left, stores the same dataset, average
  and flag.
\<close>

lemma loader_ignores_prior_state:
  "map_sum id (\<lambda>c. (data c, avgDifference c)) (tryBlock f parse (Inr content) st) =
     map_sum id (\<lambda>c. (data c, avgDifference c)) (tryBlock f parse (Inr content) st') \<and>
   (\<exists>st1 st2. loadData f parse readFile st = Inr st1 \<and>
      loadData f parse readFile st1 = Inr st2 \<and>
      data st2 = data st1 \<and> avgDifference st2 = avgDifference st1 \<and>
      loading st2 = loading st1)"
  by (simp add: loadData_def tryBlock_def Let_def split: sum.split)

section \<open>The scenario of the specification\<close>

lemma toFixed_4_zero: "toFixed g 4 (Fin 0) = ''0.0000''"
  by code_simp

lemma toFixed_4_scenario: "toFixed g 4 (Fin (450359962737049 / 9007199254740992)) = ''0.0500''"
  by code_simp

lemma scenario_differences:
  "difference (processedData f scenarioRows ! 0) =
     Fin (- (225179981368525 / 4503599627370496)) \<and>
   difference (processedData f scenarioRows ! 1) =
     Fin (337769972052787 / 2251799813685248)"
  by (simp add: scenario_data)

text \<open>
  Claim C9, as stated: on the rows \<^verbatim>\<open>{Row Index:0, Xgboost:0.90, Neural Net:0.85}\<close> and
  \<^verbatim>\<open>{Row Index:1, Xgboost:0.80, Neural Net:0.95}\<close> the differences are \<open>-0.05\<close> and
  \<open>0.15\<close> and the average is \<open>0.05\<close>. In binary64 they are not: neither the doubles
  nearest to these decimals nor the decimals themselves.
\<close>

theorem scenario_not_exact_decimals:
  "difference (processedData sampleStringToNumber scenarioRows ! 0) \<noteq> roundDouble (- (1 / 20)) \<and>
   difference (processedData sampleStringToNumber scenarioRows ! 0) \<noteq> Fin (- (1 / 20)) \<and>
   difference (processedData sampleStringToNumber scenarioRows ! 1) \<noteq> roundDouble (3 / 20) \<and>
   difference (processedData sampleStringToNumber scenarioRows ! 1) \<noteq> Fin (3 / 20) \<and>
   avgDiff (processedData sampleStringToNumber scenarioRows) \<noteq> roundDouble (1 / 20) \<and>
   avgDiff (processedData sampleStringToNumber scenarioRows) \<noteq> Fin (1 / 20)"
  using scenario_differences [of sampleStringToNumber] scenario_avg [of sampleStringToNumber]
  by (simp add: double_minus_005 double_015 double_005)

text \<open>
  Claim C9, amended. On these two rows the differences are the doubles
  \<open>-0.050000000000000044\<close> and \<open>0.1499999999999999\<close>, each within \<open>10 ^ -16\<close> of
  \<open>-0.05\<close> and \<open>0.15\<close>; the average is the double \<open>0.04999999999999993\<close>, within
  \<open>10 ^ -16\<close> of \<open>0.05\<close>, and is displayed as \<^verbatim>\<open>0.0500\<close>; there is one win, one loss
  and no tie.
\<close>

theorem scenario_values:
  "map difference (processedData f scenarioRows) =
     [Fin (- (225179981368525 / 4503599627370496)), Fin (337769972052787 / 2251799813685248)] \<and>
   \<bar>valueOf (difference (processedData f scenarioRows ! 0)) - (- (1 / 20))\<bar> < 1 / 10 ^ 16 \<and>
   \<bar>valueOf (difference (processedData f scenarioRows ! 1)) - 3 / 20\<bar> < 1 / 10 ^ 16 \<and>
   avgDiff (processedData f scenarioRows) = Fin (450359962737049 / 9007199254740992) \<and>
   \<bar>valueOf (avgDiff (processedData f scenarioRows)) - 1 / 20\<bar> < 1 / 10 ^ 16 \<and>
   toFixed g 4 (avgDiff (processedData f scenarioRows)) = ''0.0500'' \<and>
   deepLearningWins (processedData f scenarioRows) = 1 \<and>
   xgboostWins (processedData f scenarioRows) = 1 \<and>
   tiedPerformance (processedData f scenarioRows) = 0"
proof -
  have d: "map difference (processedData f scenarioRows) =
     [Fin (- (225179981368525 / 4503599627370496)), Fin (337769972052787 / 2251799813685248)]"
    by (simp add: scenario_data)
  have b0: "\<bar>valueOf (difference (processedData f scenarioRows ! 0)) - (- (1 / 20))\<bar> < 1 / 10 ^ 16"
    by (simp add: scenario_data)
  have b1: "\<bar>valueOf (difference (processedData f scenarioRows ! 1)) - 3 / 20\<bar> < 1 / 10 ^ 16"
    by (simp add: scenario_data)
  have ba: "\<bar>valueOf (avgDiff (processedData f scenarioRows)) - 1 / 20\<bar> < 1 / 10 ^ 16"
    by (simp add: scenario_avg)
  have s: "toFixed g 4 (avgDiff (processedData f scenarioRows)) = ''0.0500''"
    by (simp only: scenario_avg toFixed_4_scenario)
  have c: "deepLearningWins (processedData f scenarioRows) = 1 \<and>
      xgboostWins (processedData f scenarioRows) = 1 \<and>
      tiedPerformance (processedData f scenarioRows) = 0"
    by (simp add: scenario_data deepLearningWins_def xgboostWins_def tiedPerformance_def
          numGreater_def)
  from d b0 b1 ba s c scenario_avg [of f] show ?thesis by blast
qed

section \<open>Failure against an empty success\<close>

text \<open>
  Claim C10. When the load fails, the stored average stays at its initial value \<open>0\<close> and
  only the loading flag of the three state cells changes, so the badge shows
  \<^verbatim>\<open>0.0000\<close>. When the load succeeds on a file with no rows, or with rows whose
  differences are all NaN, the stored average is NaN and the badge shows \<^verbatim>\<open>NaN\<close>. The
  two outcomes are displayed differently.
\<close>

theorem failure_keeps_zero_average:
  "(readFile = Inl e \<or> (\<exists>content. readFile = Inr content \<and> parse content = Inl e) \<longrightarrow>
      (\<exists>st'. loadData f parse readFile initialState = Inr st' \<and>
         data st' = [] \<and> avgDifference st' = Fin 0 \<and> loading st' = False \<and>
         displayedAverage g st' = Some ''0.0000'')) \<and>
   (readFile = Inr content \<and> parse content = Inr parsed \<and>
      (\<forall>row \<in> set (parsedData parsed). nnMinusXgb f row = NaN) \<longrightarrow>
      (\<exists>st'. loadData f parse readFile initialState = Inr st' \<and>
         avgDifference st' = NaN \<and> loading st' = False \<and>
         displayedAverage g st' = Some ''NaN''))"
proof (intro conjI impI)
  assume "readFile = Inl e \<or> (\<exists>content. readFile = Inr content \<and> parse content = Inl e)"
  from loadData_failure [OF this, of f initialState]
  show "\<exists>st'. loadData f parse readFile initialState = Inr st' \<and>
         data st' = [] \<and> avgDifference st' = Fin 0 \<and> loading st' = False \<and>
         displayedAverage g st' = Some ''0.0000''"
    by (simp add: initialState_def displayedAverage_def toFixed_4_zero del: toFixed.simps)
next
  assume a: "readFile = Inr content \<and> parse content = Inr parsed \<and>
      (\<forall>row \<in> set (parsedData parsed). nnMinusXgb f row = NaN)"
  then have "\<forall>r \<in> set (processedData f (parsedData parsed)). difference r = NaN"
    using processedData_difference [of f "parsedData parsed"]
    by (metis (no_types, lifting) in_set_conv_nth length_map nth_map nth_mem)
  then have "avgDiff (processedData f (parsedData parsed)) = NaN"
    by (rule avgDiff_all_NaN)
  with a loadData_success [of readFile content parse parsed f initialState]
  show "\<exists>st'. loadData f parse readFile initialState = Inr st' \<and>
         avgDifference st' = NaN \<and> loading st' = False \<and>
         displayedAverage g st' = Some ''NaN''"
    by (auto simp: displayedAverage_def)
qed

text \<open>
  At a missing file, at a file with a header and no rows, and at a file whose one row has
  the text \<^verbatim>\<open>n/a\<close> in its neural-net cell.
\<close>

theorem failure_keeps_zero_average_witness:
  "(\<exists>st'. loadData sampleStringToNumber
            (\<lambda>content. Inr \<lparr> parsedData = [], parsedErrors = [] \<rparr>)
            (Inl (JsError ''ENOENT'')) initialState = Inr st' \<and>
      avgDifference st' = Fin 0 \<and> loading st' = False \<and>
      displayedAverage (\<lambda>q. []) st' = Some ''0.0000'') \<and>
   (\<exists>st'. loadData sampleStringToNumber
            (\<lambda>content. Inr \<lparr> parsedData = [], parsedErrors = [] \<rparr>)
            (Inr []) initialState = Inr st' \<and>
      avgDifference st' = NaN \<and> loading st' = False \<and>
      displayedAverage (\<lambda>q. []) st' = Some ''NaN'') \<and>
   nnMinusXgb sampleStringToNumber [''Neural Net (AUROC)'' \<mapsto> JStr ''n/a''] = NaN \<and>
   (\<exists>st'. loadData sampleStringToNumber
            (\<lambda>content. Inr \<lparr> parsedData = [[''Neural Net (AUROC)'' \<mapsto> JStr ''n/a'']],
                               parsedErrors = [] \<rparr>)
            (Inr []) initialState = Inr st' \<and>
      avgDifference st' = NaN \<and> loading st' = False \<and>
      displayedAverage (\<lambda>q. []) st' = Some ''NaN'')"
  using failure_keeps_zero_average
      [of "Inl (JsError ''ENOENT'')" "JsError ''ENOENT''"
          "\<lambda>content. Inr \<lparr> parsedData = [], parsedErrors = [] \<rparr>"
          sampleStringToNumber "\<lambda>q. []"]
    failure_keeps_zero_average
      [of "Inr []" _ "\<lambda>content. Inr \<lparr> parsedData = [], parsedErrors = [] \<rparr>"
          sampleStringToNumber "\<lambda>q. []" "[]" "\<lparr> parsedData = [], parsedErrors = [] \<rparr>"]
    failure_keeps_zero_average
      [of "Inr []" _
          "\<lambda>content. Inr \<lparr> parsedData = [[''Neural Net (AUROC)'' \<mapsto> JStr ''n/a'']],
                               parsedErrors = [] \<rparr>"
          sampleStringToNumber "\<lambda>q. []" "[]"
          "\<lparr> parsedData = [[''Neural Net (AUROC)'' \<mapsto> JStr ''n/a'']], parsedErrors = [] \<rparr>"]
  by (auto simp: nnMinusXgb_def orZero_def jsMinus_def numSubtract_def sampleStringToNumber_def)

end
